theory Spec2Isabelle
  imports Main
begin

section \<open>Python values used by the notebook\<close>

text \<open>
  The notebook \<^verbatim>\<open>sagemaker.ipynb\<close> is Python. Its strings are modelled as \<^typ>\<open>string\<close>,
  one \<^typ>\<open>char\<close> per code point, which covers the code points below 256 (Latin-1).
  A raised exception is a value \<open>Inl e\<close> of a sum type; a normal return is \<open>Inr v\<close>.
\<close>

datatype error =
    KeyError string
  | ValueError
  | EOFError
  | ServiceError
  | ShapeError
  | AlreadyExists
  | NotFound
  | InvalidArgument
  | QuotaError

text \<open>
  \<^verbatim>\<open>str.isspace\<close> on one code point below 256: the characters U+0009 to U+000D,
  U+001C to U+001F, U+0020, U+0085 and U+00A0.
\<close>

definition isspace :: "char \<Rightarrow> bool" where
  "isspace c \<longleftrightarrow>
     c \<in> {CHR 0x09, CHR 0x0A, CHR 0x0B, CHR 0x0C, CHR 0x0D,
          CHR 0x1C, CHR 0x1D, CHR 0x1E, CHR 0x1F, CHR 0x20, CHR 0x85, CHR 0xA0}"

text \<open>\<^verbatim>\<open>s.strip()\<close>: leading and trailing whitespace removed.\<close>

definition strip :: "string \<Rightarrow> string" where
  "strip s = rev (dropWhile isspace (rev (dropWhile isspace s)))"

text \<open>
  \<^verbatim>\<open>s.lower()\<close> below code point 256: A to Z, and the Latin-1 capitals U+00C0 to U+00DE
  without the multiplication sign U+00D7, move up by 32.
\<close>

definition lower_char :: "char \<Rightarrow> char" where
  "lower_char c =
     (let n = (of_char c :: nat)
      in if (65 \<le> n \<and> n \<le> 90) \<or> (192 \<le> n \<and> n \<le> 214) \<or> (216 \<le> n \<and> n \<le> 222)
         then char_of (n + 32) else c)"

definition lower :: "string \<Rightarrow> string" where
  "lower s = map lower_char s"

text \<open>
  \<^verbatim>\<open>s.replace(old, new)\<close>: every non-overlapping occurrence of \<open>old\<close>, found from the left,
  becomes \<open>new\<close>; with an empty \<open>old\<close>, \<open>new\<close> is put before every character and at the end.
\<close>

function replace :: "string \<Rightarrow> string \<Rightarrow> string \<Rightarrow> string" where
  "replace [] old new = (if old = [] then new else [])"
| "replace (c # cs) old new =
     (if old = [] then new @ c # replace cs old new
      else if take (length old) (c # cs) = old
           then new @ replace (drop (length old) (c # cs)) old new
           else c # replace cs old new)"
  by pat_completeness auto
termination
  by (relation "measure (\<lambda>(s, old, new). length s)") auto

text \<open>\<^verbatim>\<open>sep.join(xs)\<close>.\<close>

fun join :: "string \<Rightarrow> string list \<Rightarrow> string" where
  "join sep [] = []"
| "join sep [x] = x"
| "join sep (x # y # ys) = x @ sep @ join sep (y # ys)"

text \<open>\<^verbatim>\<open>str(n)\<close> for a natural number: its decimal digits.\<close>

fun str_nat :: "nat \<Rightarrow> string" where
  "str_nat n =
     (if n < 10 then [char_of (48 + n)]
      else str_nat (n div 10) @ [char_of (48 + n mod 10)])"

declare str_nat.simps [simp del]

text \<open>
  \<^verbatim>\<open>template.format(**kw)\<close> for templates whose replacement fields are plain keyword
  names, as those of \<^verbatim>\<open>PROMPT_TEMPLATE\<close> are: \<^verbatim>\<open>{{\<close> and \<^verbatim>\<open>}}\<close> are literal braces,
  \<^verbatim>\<open>{name}\<close> is replaced by the value of the keyword, a keyword that was not passed raises
  \<^verbatim>\<open>KeyError\<close>, and an unmatched brace raises \<^verbatim>\<open>ValueError\<close>. The template is read from
  the left, so the leftmost problem is the one raised.
\<close>

fun split_field :: "string \<Rightarrow> (string \<times> string) option" where
  "split_field [] = None"
| "split_field (c # cs) =
     (if c = CHR ''}'' then Some ([], cs)
      else if c = CHR ''{'' then None
      else map_option (\<lambda>(n, r). (c # n, r)) (split_field cs))"

lemma split_field_shorter: "split_field cs = Some (n, r) \<Longrightarrow> length r < length cs"
  by (induction cs arbitrary: n r) (auto split: if_splits)

function str_format :: "string \<Rightarrow> (string \<rightharpoonup> string) \<Rightarrow> error + string" where
  "str_format [] kw = Inr []"
| "str_format (c # cs) kw =
     (if c = CHR ''{'' then
        (case cs of
           d # ds \<Rightarrow>
             if d = CHR ''{'' then map_sum id ((#) CHR ''{'') (str_format ds kw)
             else (case split_field cs of
                     None \<Rightarrow> Inl ValueError
                   | Some (n, r) \<Rightarrow>
                       (case kw n of
                          None \<Rightarrow> Inl (KeyError n)
                        | Some v \<Rightarrow> map_sum id ((@) v) (str_format r kw)))
         | [] \<Rightarrow> Inl ValueError)
      else if c = CHR ''}'' then
        (case cs of
           d # ds \<Rightarrow>
             if d = CHR ''}'' then map_sum id ((#) CHR ''}'') (str_format ds kw)
             else Inl ValueError
         | [] \<Rightarrow> Inl ValueError)
      else map_sum id ((#) c) (str_format cs kw))"
  by pat_completeness auto
termination
proof (relation "measure (\<lambda>(s, kw). length s)", goal_cases)
  case 1
  show ?case by simp
next
  case (2 c cs kw d ds)
  then show ?case by simp
next
  case (3 c cs kw d ds x n r v)
  then show ?case using split_field_shorter [of cs n r] by simp
next
  case (4 c cs kw d ds)
  then show ?case by simp
next
  case (5 c cs kw)
  then show ?case by simp
qed

declare str_format.simps [simp del]

text \<open>\<^verbatim>\<open>d[key]\<close> on a dictionary: a missing key raises \<^verbatim>\<open>KeyError\<close>.\<close>

definition getitem :: "(string \<rightharpoonup> string) \<Rightarrow> string \<Rightarrow> error + string" where
  "getitem d key = (case d key of None \<Rightarrow> Inl (KeyError key) | Some v \<Rightarrow> Inr v)"

text \<open>
  A list comprehension whose element expression may raise: the elements are computed from
  the left and the first exception ends the comprehension.
\<close>

fun comprehension :: "('a \<Rightarrow> error + 'b) \<Rightarrow> 'a list \<Rightarrow> error + 'b list" where
  "comprehension f [] = Inr []"
| "comprehension f (x # xs) =
     (case f x of
        Inl e \<Rightarrow> Inl e
      | Inr y \<Rightarrow> (case comprehension f xs of Inl e \<Rightarrow> Inl e | Inr ys \<Rightarrow> Inr (y # ys)))"

section \<open>The external services\<close>

text \<open>
  A document returned by the vector store (LangChain's \<^verbatim>\<open>Document\<close>): its text and its
  metadata dictionary.
\<close>

record document =
  page_content :: string
  metadata :: "string \<rightharpoonup> string"

text \<open>
  The notebook reaches two remote services through the globals \<^verbatim>\<open>astra_v_store\<close> and
  \<^verbatim>\<open>llm\<close>. Their code is not part of the notebook, so they are parameters of the model.
  Every call made to them is appended to a trace, and what a service answers may depend
  on the calls made before (the language model is stochastic, the store changes).
\<close>

datatype call =
    Similarity_search string int "string \<rightharpoonup> string"
  | Invoke string

record env =
  similarity_search :: "call list \<Rightarrow> string \<Rightarrow> int \<Rightarrow> (string \<rightharpoonup> string) \<Rightarrow> error + document list"
  invoke :: "call list \<Rightarrow> string \<Rightarrow> error + string"

section \<open>Retrieval\<close>

text \<open>
  \<^verbatim>\<open>def find_similar_entries(observation, k=3, order=None)\<close>. An omitted \<open>k\<close> is \<open>None\<close>
  here and takes the default 3. The test \<^verbatim>\<open>if order:\<close> is Python truthiness: \<open>None\<close> and
  the empty string are both false.
\<close>

definition find_similar_entries ::
  "env \<Rightarrow> string \<Rightarrow> int option \<Rightarrow> string option \<Rightarrow> call list \<Rightarrow> (error + document list) \<times> call list"
where
  "find_similar_entries E observation k order' h =
     (let k' = (case k of None \<Rightarrow> 3 | Some n \<Rightarrow> n);
          md = (case order' of
                  None \<Rightarrow> Map.empty
                | Some s \<Rightarrow> if s \<noteq> [] then [''order'' \<mapsto> s] else Map.empty);
          documents = similarity_search E h observation k' md
      in (documents, h @ [Similarity_search observation k' md]))"

section \<open>Generation\<close>

definition PROMPT_TEMPLATE :: string where
  "PROMPT_TEMPLATE =
     ''\<newline>'' @
     ''<s>[INST] <<SYS>>\<newline>'' @
     ''You are an expert entomologist tasked with helping specimen identification on the field.\<newline>'' @
     ''You are given relevant excerpts from an invertebrate textbook along with my field observation.\<newline>'' @
     ''Your task is to compare my observation with the textbook excerpts and come to an identification,\<newline>'' @
     ''explaining why you came to that conclusion and giving the degree of certainity.\<newline>'' @
     ''Only use the information provided in the user observation to come to your conclusion!\<newline>'' @
     ''Be sure to provide, in your verdict, the species' Order together with the full Latin name.\<newline>'' @
     ''Keep it short and informal, not like a letter, do not start with 'Dear User' or similar,\<newline>'' @
     ''do not sign your communication.\<newline>'' @
     ''\<newline>'' @
     ''TEXTBOOK CANDIDATE MATCHES:\<newline>'' @
     ''{candidates}\<newline>'' @
     ''\<newline>'' @
     ''<</SYS>>\<newline>'' @
     ''\<newline>'' @
     ''Here is my observation:\<newline>'' @
     ''{observation}\<newline>'' @
     ''\<newline>'' @
     ''Please assist me in the identification. [/INST]\<newline>''"

text \<open>
  The f-string of \<^verbatim>\<open>describe_candidates\<close> for the match at index \<open>i\<close> of the enumeration:
  \<^verbatim>\<open>i+1\<close>, then \<^verbatim>\<open>doc.metadata['name']\<close>, then \<^verbatim>\<open>doc.metadata['order']\<close>, then
  \<^verbatim>\<open>doc.page_content\<close>, evaluated in this order.
\<close>

definition candidate_block :: "nat \<times> document \<Rightarrow> error + string" where
  "candidate_block p =
     (case p of (i, doc) \<Rightarrow>
        (case getitem (metadata doc) ''name'' of
           Inl e \<Rightarrow> Inl e
         | Inr nm \<Rightarrow>
             (case getitem (metadata doc) ''order'' of
                Inl e \<Rightarrow> Inl e
              | Inr ord \<Rightarrow>
                  Inr (''Candidate species '' @ str_nat (i + 1) @ '': '' @ [CHR 0x27] @ nm @ [CHR 0x27]
                       @ '' (order: '' @ ord @ '')\<newline>Description: '' @ page_content doc
                       @ ''\<newline>''))))"

definition describe_candidates :: "document list \<Rightarrow> error + string" where
  "describe_candidates matches =
     (case comprehension candidate_block (enumerate 0 matches) of
        Inl e \<Rightarrow> Inl e
      | Inr blocks \<Rightarrow> Inr (join ''\<newline>'' blocks))"

definition format_prompt :: "string \<Rightarrow> string \<Rightarrow> error + string" where
  "format_prompt observation candidates =
     str_format PROMPT_TEMPLATE [''observation'' \<mapsto> observation, ''candidates'' \<mapsto> candidates]"

text \<open>
  \<^verbatim>\<open>def identify_and_suggest(observation, order=None)\<close>: an exception of any step ends the
  call there, with the trace as it stands.
\<close>

definition identify_and_suggest ::
  "env \<Rightarrow> string \<Rightarrow> string option \<Rightarrow> call list \<Rightarrow> (error + string) \<times> call list"
where
  "identify_and_suggest E observation order' h =
     (case find_similar_entries E observation (Some 3) order' h of
        (Inl e, h1) \<Rightarrow> (Inl e, h1)
      | (Inr matches, h1) \<Rightarrow>
          (case describe_candidates matches of
             Inl e \<Rightarrow> (Inl e, h1)
           | Inr candidates_text \<Rightarrow>
               (case format_prompt observation candidates_text of
                  Inl e \<Rightarrow> (Inl e, h1)
                | Inr prompt \<Rightarrow>
                    (case invoke E h1 prompt of
                       Inl e \<Rightarrow> (Inl e, h1 @ [Invoke prompt])
                     | Inr generated \<Rightarrow> (Inr (strip generated), h1 @ [Invoke prompt])))))"

section \<open>The generation client of the notebook\<close>

text \<open>
  The values that cell 29 puts into a request body, before \<^verbatim>\<open>json.dumps\<close> writes them as
  text: a string, an integer, an object with its keys in order, and a float literal, kept
  as the decimal the source writes (\<open>JDecimal m e\<close> is \<open>m / 10 ^ e\<close>). The notebook
  does no arithmetic on these numbers.
\<close>

datatype json =
    JString string
  | JInt int
  | JDecimal int nat
  | JObject "(string \<times> json) list"

text \<open>
  \<^verbatim>\<open>ContentHandler.transform_input\<close>: the request \<^verbatim>\<open>{"inputs": prompt, "parameters": model_kwargs}\<close>.
  Its writing as text and its encoding in UTF-8 are not modelled.
\<close>

definition transform_input :: "string \<Rightarrow> (string \<times> json) list \<Rightarrow> json" where
  "transform_input prompt kwargs =
     JObject [(''inputs'', JString prompt), (''parameters'', JObject kwargs)]"

text \<open>
  The sampling parameters that cell 29 gives the client:
  \<^verbatim>\<open>model_kwargs={"max_new_tokens": 3072, "top_p": 0.4, "temperature": 0.001}\<close>.
\<close>

definition model_kwargs :: "(string \<times> json) list" where
  "model_kwargs =
     [(''max_new_tokens'', JInt 3072), (''top_p'', JDecimal 4 1), (''temperature'', JDecimal 1 3)]"

text \<open>
  Modelled from the spec: the generation client \<^verbatim>\<open>llm\<close> that cell 29 builds with
  \<^verbatim>\<open>SagemakerEndpoint(model_kwargs=..., content_handler=...)\<close>, a class of library code
  that is not in the notebook. By sections 4.2 and 6 of the spec a call sends the remote
  endpoint the request made from the prompt and the client's options, and returns the
  generated text. The parameter \<open>endpoint\<close> is the remote endpoint together with the
  decoding of its response.
\<close>

definition llm :: "(call list \<Rightarrow> json \<Rightarrow> error + string) \<Rightarrow> call list \<Rightarrow> string \<Rightarrow> error + string" where
  "llm endpoint h prompt = endpoint h (transform_input prompt model_kwargs)"

text \<open>The two globals of the notebook: a vector store and the client of cell 29.\<close>

definition notebook_env ::
  "(call list \<Rightarrow> string \<Rightarrow> int \<Rightarrow> (string \<rightharpoonup> string) \<Rightarrow> error + document list)
     \<Rightarrow> (call list \<Rightarrow> json \<Rightarrow> error + string) \<Rightarrow> env"
where
  "notebook_env astra_v_store endpoint = \<lparr>similarity_search = astra_v_store, invoke = llm endpoint\<rparr>"

section \<open>The input loop\<close>

text \<open>
  The last cell reads observations until an empty one. The lines the user will enter are
  the list \<open>stdin\<close>; \<^verbatim>\<open>input\<close> writes its prompt, takes the next line, and raises
  \<^verbatim>\<open>EOFError\<close> when there is none. \<^verbatim>\<open>print\<close> writes its argument and a newline.
\<close>

record world =
  stdin :: "string list"
  stdout :: "string list"
  trace :: "call list"

definition input :: "string \<Rightarrow> world \<Rightarrow> (error + string) \<times> world" where
  "input prompt w =
     (case stdin w of
        [] \<Rightarrow> (Inl EOFError, w\<lparr>stdout := stdout w @ [prompt]\<rparr>)
      | l # ls \<Rightarrow> (Inr l, w\<lparr>stdin := ls, stdout := stdout w @ [prompt]\<rparr>))"

definition print :: "string \<Rightarrow> world \<Rightarrow> world" where
  "print s w = w\<lparr>stdout := stdout w @ [s @ ''\<newline>'']\<rparr>"

definition input_prompt :: string where
  "input_prompt = ''\<newline>=============================\<newline>Enter your field observation: ''"

text \<open>
  One pass through the body of \<^verbatim>\<open>while True:\<close>. \<open>Inr True\<close> goes round again,
  \<open>Inr False\<close> is the \<^verbatim>\<open>break\<close>, \<open>Inl e\<close> is an exception leaving the loop.
\<close>

definition app_step :: "env \<Rightarrow> world \<Rightarrow> (error + bool) \<times> world" where
  "app_step E w =
     (case input input_prompt w of
        (Inl e, w1) \<Rightarrow> (Inl e, w1)
      | (Inr line, w1) \<Rightarrow>
          (let observation = strip line in
           if observation \<noteq> [] then
             (let w2 = print ''-----------------------------'' w1 in
              case identify_and_suggest E observation None (trace w2) of
                (Inl e, t) \<Rightarrow> (Inl e, w2\<lparr>trace := t\<rparr>)
              | (Inr result, t) \<Rightarrow> (Inr True, print (''Result ==> '' @ result) (w2\<lparr>trace := t\<rparr>)))
           else (Inr False, print ''(no input)'' w1)))"

lemma app_step_consumes:
  "app_step E w = (Inr True, w') \<Longrightarrow> length (stdin w') < length (stdin w)"
  by (auto simp: app_step_def input_def print_def Let_def
      split: list.splits sum.splits prod.splits if_splits)

function app_loop :: "env \<Rightarrow> world \<Rightarrow> (error + unit) \<times> world" where
  "app_loop E w =
     (case app_step E w of
        (Inl e, w') \<Rightarrow> (Inl e, w')
      | (Inr again, w') \<Rightarrow> if again then app_loop E w' else (Inr (), w'))"
  by pat_completeness auto
termination
proof (relation "measure (\<lambda>(E, w). length (stdin w))", goal_cases)
  case 1
  show ?case by simp
next
  case (2 E w x w' again)
  then show ?case using app_step_consumes [of E w w'] by simp
qed

declare app_loop.simps [simp del]

definition app :: "env \<Rightarrow> world \<Rightarrow> (error + unit) \<times> world" where
  "app E w =
     (case app_loop E w of
        (Inl e, w') \<Rightarrow> (Inl e, w')
      | (Inr u, w') \<Rightarrow> (Inr (), print ''\<newline>========\<newline>Goodbye.'' w'))"

section \<open>Ingestion\<close>

text \<open>An entry of the example dataset, with the three keys the notebook reads.\<close>

record entry =
  name :: string
  order :: string
  description :: string

definition texts :: "entry list \<Rightarrow> string list" where
  "texts sample_dataset = map description sample_dataset"

definition metadatas :: "entry list \<Rightarrow> (string \<rightharpoonup> string) list" where
  "metadatas sample_dataset =
     map (\<lambda>entry. [''name'' \<mapsto> name entry, ''order'' \<mapsto> order entry]) sample_dataset"

definition ids :: "entry list \<Rightarrow> string list" where
  "ids sample_dataset = map (\<lambda>entry. replace (lower (name entry)) '' '' ''_'') sample_dataset"

text \<open>
  Modelled from the spec: the record of section 3, without its id, which is the key under
  which a collection holds it. The code of the vector store is not in the notebook.
\<close>

record 'v stored =
  rec_text :: string
  rec_metadata :: "string \<rightharpoonup> string"
  rec_vector :: 'v

type_synonym 'v collection = "string \<rightharpoonup> 'v stored"

text \<open>
  Modelled from the spec: the vector store's \<^verbatim>\<open>upsert\<close> of section 4.3, whose code is not
  in the notebook. For each record of the batch, in order, the vector is derived from the
  text by the embedding client and the record is stored under its id, overwriting a record
  already there; a record whose embedding fails is not stored, and the outcome is reported
  per id.
\<close>

fun upsert ::
  "(string \<Rightarrow> error + 'v) \<Rightarrow> 'v collection \<Rightarrow> (string \<times> string \<times> (string \<rightharpoonup> string)) list
     \<Rightarrow> 'v collection \<times> (string \<times> error option) list"
where
  "upsert embedder c [] = (c, [])"
| "upsert embedder c ((i, t, m) # rs) =
     (case embedder t of
        Inl e \<Rightarrow> (case upsert embedder c rs of (c', out) \<Rightarrow> (c', (i, Some e) # out))
      | Inr v \<Rightarrow>
          (case upsert embedder (c(i \<mapsto> \<lparr>rec_text = t, rec_metadata = m, rec_vector = v\<rparr>)) rs of
             (c', out) \<Rightarrow> (c', (i, None) # out)))"

text \<open>
  Modelled from the spec: the library call \<^verbatim>\<open>astra_v_store.add_texts\<close>, by which the
  notebook reaches \<^verbatim>\<open>upsert\<close> and whose code is not in the notebook. The three lists are
  one batch of records; lists of mismatched lengths are \<^verbatim>\<open>InvalidArgument\<close> (section 7).
\<close>

definition add_texts ::
  "(string \<Rightarrow> error + 'v) \<Rightarrow> 'v collection \<Rightarrow> string list \<Rightarrow> (string \<rightharpoonup> string) list \<Rightarrow> string list
     \<Rightarrow> error + 'v collection \<times> (string \<times> error option) list"
where
  "add_texts embedder c ts ms idents =
     (if length ts = length idents \<and> length ms = length idents
      then Inr (upsert embedder c (zip idents (zip ts ms)))
      else Inl InvalidArgument)"

text \<open>The ingestion cell: \<^verbatim>\<open>astra_v_store.add_texts(texts=texts, metadatas=metadatas, ids=ids)\<close>.\<close>

definition ingest ::
  "(string \<Rightarrow> error + 'v) \<Rightarrow> 'v collection \<Rightarrow> entry list
     \<Rightarrow> error + 'v collection \<times> (string \<times> error option) list"
where
  "ingest embedder c sample_dataset =
     add_texts embedder c (texts sample_dataset) (metadatas sample_dataset) (ids sample_dataset)"

section \<open>The rendered prompt\<close>

text \<open>
  The three literal parts of \<^verbatim>\<open>PROMPT_TEMPLATE\<close>: before \<^verbatim>\<open>{candidates}\<close>, between the two
  fields, and after \<^verbatim>\<open>{observation}\<close>.
\<close>

definition prompt_head :: string where
  "prompt_head =
     ''\<newline>'' @
     ''<s>[INST] <<SYS>>\<newline>'' @
     ''You are an expert entomologist tasked with helping specimen identification on the field.\<newline>'' @
     ''You are given relevant excerpts from an invertebrate textbook along with my field observation.\<newline>'' @
     ''Your task is to compare my observation with the textbook excerpts and come to an identification,\<newline>'' @
     ''explaining why you came to that conclusion and giving the degree of certainity.\<newline>'' @
     ''Only use the information provided in the user observation to come to your conclusion!\<newline>'' @
     ''Be sure to provide, in your verdict, the species' Order together with the full Latin name.\<newline>'' @
     ''Keep it short and informal, not like a letter, do not start with 'Dear User' or similar,\<newline>'' @
     ''do not sign your communication.\<newline>'' @
     ''\<newline>'' @
     ''TEXTBOOK CANDIDATE MATCHES:\<newline>''"

definition prompt_mid :: string where
  "prompt_mid = ''\<newline>\<newline><</SYS>>\<newline>\<newline>Here is my observation:\<newline>''"

definition prompt_tail :: string where
  "prompt_tail = ''\<newline>\<newline>Please assist me in the identification. [/INST]\<newline>''"

text \<open>A piece of template text without braces is copied by \<^verbatim>\<open>format\<close> as it is.\<close>

definition plain :: "string \<Rightarrow> bool" where
  "plain s = list_all (\<lambda>c. c \<noteq> CHR ''{'' \<and> c \<noteq> CHR ''}'') s"

lemma str_format_plain:
  "plain s \<Longrightarrow> str_format (s @ t) kw = map_sum id ((@) s) (str_format t kw)"
proof (induction s)
  case Nil
  show ?case by (cases "str_format t kw") simp_all
next
  case (Cons c s)
  then show ?case
    by (cases "str_format t kw") (simp_all add: str_format.simps(2) plain_def)
qed

lemma split_field_plain: "plain n \<Longrightarrow> split_field (n @ CHR ''}'' # r) = Some (n, r)"
  by (induction n) (simp_all add: plain_def)

lemma str_format_field:
  assumes "plain n" "n \<noteq> []" "kw n = Some v"
  shows "str_format (CHR ''{'' # n @ CHR ''}'' # r) kw = map_sum id ((@) v) (str_format r kw)"
proof -
  obtain d ds where n: "n = d # ds" using assms(2) by (cases n) auto
  have d: "d \<noteq> CHR ''{''" using assms(1) n by (simp add: plain_def)
  have "split_field (n @ CHR ''}'' # r) = Some (n, r)" using assms(1) by (rule split_field_plain)
  then show ?thesis using d assms(3) unfolding n
    by (simp add: str_format.simps(2))
qed

lemma PROMPT_TEMPLATE_parts:
  "PROMPT_TEMPLATE = prompt_head @ (CHR ''{'' # ''candidates'' @ CHR ''}'' # (prompt_mid @
     (CHR ''{'' # ''observation'' @ CHR ''}'' # (prompt_tail @ []))))"
  by (simp add: PROMPT_TEMPLATE_def prompt_head_def prompt_mid_def prompt_tail_def)

lemma format_prompt_eq:
  "format_prompt observation candidates =
     Inr (prompt_head @ candidates @ prompt_mid @ observation @ prompt_tail)"
proof -
  let ?kw = "[''observation'' \<mapsto> observation, ''candidates'' \<mapsto> candidates]"
  have h: "plain prompt_head" by (simp add: prompt_head_def plain_def)
  have m: "plain prompt_mid" by (simp add: prompt_mid_def plain_def)
  have t: "plain prompt_tail" by (simp add: prompt_tail_def plain_def)
  have c: "plain ''candidates''" "''candidates'' \<noteq> []" "?kw ''candidates'' = Some candidates"
    by (simp_all add: plain_def)
  have ob: "plain ''observation''" "''observation'' \<noteq> []" "?kw ''observation'' = Some observation"
    by (simp_all add: plain_def)
  note fc = str_format_field [of "''candidates''" ?kw candidates, OF c]
  note fo = str_format_field [of "''observation''" ?kw observation, OF ob]
  show ?thesis
    unfolding format_prompt_def PROMPT_TEMPLATE_parts
    by (simp only: str_format_plain [OF h] str_format_plain [OF m] str_format_plain [OF t]
        fc fo str_format.simps(1))
      (simp)
qed

section \<open>The answer operation as the spec words it\<close>

text \<open>
  Following the spec's words (section 4.4), for comparison with \<open>identify_and_suggest\<close>:
  \<open>answer\<close> calls retrieve, serializes each match into the block
  \<^verbatim>\<open>Candidate species i: '<name>' (order: <order>)\nDescription: <text>\<close>, substitutes the
  observation and the candidates into the prompt template, calls the generation client and
  trims the result. The spec does not say how the blocks are put together or where the
  numbering starts; both are taken from the code (a newline between blocks, numbers
  from 1).
\<close>

definition spec_block :: "nat \<Rightarrow> string \<Rightarrow> string \<Rightarrow> string \<Rightarrow> string" where
  "spec_block i nm od txt =
     ''Candidate species '' @ str_nat i @ '': '' @ [CHR 0x27] @ nm @ [CHR 0x27]
       @ '' (order: '' @ od @ '')\<newline>Description: '' @ txt"

definition spec_serialize :: "nat \<times> document \<Rightarrow> error + string" where
  "spec_serialize p =
     (case p of (i, doc) \<Rightarrow>
        (case getitem (metadata doc) ''name'' of
           Inl e \<Rightarrow> Inl e
         | Inr nm \<Rightarrow>
             (case getitem (metadata doc) ''order'' of
                Inl e \<Rightarrow> Inl e
              | Inr od \<Rightarrow> Inr (spec_block (i + 1) nm od (page_content doc)))))"

definition spec_answer ::
  "env \<Rightarrow> string \<Rightarrow> string option \<Rightarrow> call list \<Rightarrow> (error + string) \<times> call list"
where
  "spec_answer E observation order' h =
     (case find_similar_entries E observation (Some 3) order' h of
        (Inl e, h1) \<Rightarrow> (Inl e, h1)
      | (Inr matches, h1) \<Rightarrow>
          (case comprehension spec_serialize (enumerate 0 matches) of
             Inl e \<Rightarrow> (Inl e, h1)
           | Inr blocks \<Rightarrow>
               (let prompt = prompt_head @ join ''\<newline>'' blocks @ prompt_mid @ observation @ prompt_tail
                in (map_sum id strip (invoke E h1 prompt), h1 @ [Invoke prompt]))))"

section \<open>Services and data for concrete runs\<close>

text \<open>
  A store that answers every search with \<open>found\<close> and a generation client that answers
  a prompt with \<open>reply prompt\<close>: with \<open>Inr\<close> it echoes the prompt, with \<open>reply_with r\<close> it
  answers \<open>r\<close> whatever the prompt. Then a document of the kind the example dataset holds,
  and one without the \<^verbatim>\<open>name\<close> key.
\<close>

definition fixed_env :: "(error + document list) \<Rightarrow> (string \<Rightarrow> error + string) \<Rightarrow> env" where
  "fixed_env found reply =
     \<lparr>similarity_search = (\<lambda>h observation k md. found), invoke = (\<lambda>h prompt. reply prompt)\<rparr>"

definition reply_with :: "error + string \<Rightarrow> string \<Rightarrow> error + string" where
  "reply_with r prompt = r"

definition dragonfly :: document where
  "dragonfly =
     \<lparr>page_content = ''Long wings'',
      metadata = [''name'' \<mapsto> ''Anax imperator'', ''order'' \<mapsto> ''Odonata'']\<rparr>"

definition unnamed :: document where
  "unnamed = \<lparr>page_content = ''Six legs'', metadata = [''order'' \<mapsto> ''Odonata'']\<rparr>"

section \<open>What a run leaves behind\<close>


text \<open>What storing one record of a batch does to the collection.\<close>

definition store_one ::
  "(string \<Rightarrow> error + 'v) \<Rightarrow> string \<times> string \<times> (string \<rightharpoonup> string) \<Rightarrow> 'v collection \<Rightarrow> 'v collection"
where
  "store_one embedder r c =
     (case r of (i, t, m) \<Rightarrow>
        (case embedder t of
           Inl e \<Rightarrow> c
         | Inr v \<Rightarrow> c(i \<mapsto> \<lparr>rec_text = t, rec_metadata = m, rec_vector = v\<rparr>)))"

section \<open>Properties of the pipeline's steps\<close>

lemma identify_and_suggest_unfold:
  "identify_and_suggest E observation order' h =
     (case find_similar_entries E observation (Some 3) order' h of
        (Inl e, h1) \<Rightarrow> (Inl e, h1)
      | (Inr matches, h1) \<Rightarrow>
          (case describe_candidates matches of
             Inl e \<Rightarrow> (Inl e, h1)
           | Inr candidates_text \<Rightarrow>
               (let prompt = prompt_head @ candidates_text @ prompt_mid @ observation @ prompt_tail
                in (map_sum id strip (invoke E h1 prompt), h1 @ [Invoke prompt]))))"
  by (simp add: identify_and_suggest_def format_prompt_eq Let_def
      split: prod.splits sum.splits)

lemma candidate_block_present:
  "metadata doc ''name'' = Some nm \<Longrightarrow> metadata doc ''order'' = Some od \<Longrightarrow>
     candidate_block (i, doc) = Inr (spec_block (i + 1) nm od (page_content doc) @ ''\<newline>'')"
  by (simp add: candidate_block_def getitem_def spec_block_def)

lemma comprehension_all:
  "(\<forall>x \<in> set xs. f x = Inr (g x)) \<Longrightarrow> comprehension f xs = Inr (map g xs)"
  by (induction xs) simp_all

lemma comprehension_fails:
  "\<exists>x \<in> set xs. \<exists>e. f x = Inl e \<Longrightarrow> \<exists>x \<in> set xs. \<exists>e. f x = Inl e \<and> comprehension f xs = Inl e"
proof (induction xs)
  case Nil
  then show ?case by simp
next
  case (Cons a xs)
  show ?case
  proof (cases "f a")
    case (Inl e)
    then show ?thesis by auto
  next
    case (Inr y)
    with Cons.prems have "\<exists>x \<in> set xs. \<exists>e. f x = Inl e" by auto
    from Cons.IH [OF this] obtain x e where "x \<in> set xs" "f x = Inl e" "comprehension f xs = Inl e"
      by blast
    with Inr show ?thesis by auto
  qed
qed

lemma strip_empty_iff: "strip s = [] \<longleftrightarrow> (\<forall>c \<in> set s. isspace c)"
proof
  assume "strip s = []"
  then have a: "\<forall>c \<in> set (dropWhile isspace s). isspace c"
    by (simp add: strip_def dropWhile_eq_Nil_conv)
  have "dropWhile isspace s = []"
  proof (rule ccontr)
    assume n: "dropWhile isspace s \<noteq> []"
    then have "\<not> isspace (hd (dropWhile isspace s))" by (rule hd_dropWhile)
    moreover have "hd (dropWhile isspace s) \<in> set (dropWhile isspace s)" using n by simp
    ultimately show False using a by blast
  qed
  then show "\<forall>c \<in> set s. isspace c" by (simp add: dropWhile_eq_Nil_conv)
next
  assume "\<forall>c \<in> set s. isspace c"
  then have e: "dropWhile isspace s = []" by (simp add: dropWhile_eq_Nil_conv)
  show "strip s = []" unfolding strip_def e by simp
qed

lemma strip_nonempty_iff: "strip s \<noteq> [] \<longleftrightarrow> (\<exists>c \<in> set s. \<not> isspace c)"
  by (simp add: strip_empty_iff)

lemma candidate_block_error:
  "candidate_block p = Inl e \<Longrightarrow> e = KeyError ''name'' \<or> e = KeyError ''order''"
  by (auto simp: candidate_block_def getitem_def split: prod.splits option.splits)

lemma candidate_block_missing:
  "metadata doc ''name'' = None \<or> metadata doc ''order'' = None \<Longrightarrow>
     \<exists>e. candidate_block (i, doc) = Inl e"
  by (auto simp: candidate_block_def getitem_def split: option.splits)

lemma describe_candidates_present:
  assumes "\<forall>d \<in> set matches. metadata d ''name'' \<noteq> None \<and> metadata d ''order'' \<noteq> None"
  shows "\<exists>s. describe_candidates matches = Inr s"
proof -
  let ?g = "\<lambda>p. case p of (i, d) \<Rightarrow>
      spec_block (i + 1) (the (metadata d ''name'')) (the (metadata d ''order'')) (page_content d) @ ''\<newline>''"
  have "\<forall>x \<in> set (enumerate 0 matches). candidate_block x = Inr (?g x)"
  proof
    fix x assume x: "x \<in> set (enumerate 0 matches)"
    obtain i d where p: "x = (i, d)" by (cases x)
    with x have "d \<in> set matches" by (auto simp: in_set_enumerate_eq)
    with assms obtain nm od where "metadata d ''name'' = Some nm" "metadata d ''order'' = Some od"
      by auto
    then show "candidate_block x = Inr (?g x)"
      using candidate_block_present [of d nm od i] by (simp add: p)
  qed
  then have "comprehension candidate_block (enumerate 0 matches) = Inr (map ?g (enumerate 0 matches))"
    by (rule comprehension_all)
  then show ?thesis by (simp add: describe_candidates_def)
qed

lemma describe_candidates_missing:
  assumes "\<exists>d \<in> set matches. metadata d ''name'' = None \<or> metadata d ''order'' = None"
  shows "describe_candidates matches = Inl (KeyError ''name'')
       \<or> describe_candidates matches = Inl (KeyError ''order'')"
proof -
  from assms obtain d where d: "d \<in> set matches"
    "metadata d ''name'' = None \<or> metadata d ''order'' = None" by blast
  from d(1) obtain i where "i < length matches" "matches ! i = d"
    by (auto simp: in_set_conv_nth)
  then have "(i, d) \<in> set (enumerate 0 matches)"
    by (simp add: in_set_enumerate_eq)
  moreover from d(2) obtain e where "candidate_block (i, d) = Inl e"
    using candidate_block_missing by blast
  ultimately have "\<exists>x \<in> set (enumerate 0 matches). \<exists>e. candidate_block x = Inl e" by blast
  from comprehension_fails [OF this] obtain x e where
    "candidate_block x = Inl e" "comprehension candidate_block (enumerate 0 matches) = Inl e"
    by blast
  then show ?thesis using candidate_block_error [of x e] by (auto simp: describe_candidates_def)
qed

lemma snd_find_similar_entries:
  "\<exists>md. snd (find_similar_entries E observation (Some k) order' h) = h @ [Similarity_search observation k md]
        \<and> fst (find_similar_entries E observation (Some k) order' h) = similarity_search E h observation k md"
  by (simp add: find_similar_entries_def Let_def)

lemma trace_identify_and_suggest:
  "\<exists>md. snd (identify_and_suggest E observation order' h) = h @ [Similarity_search observation 3 md]
       \<or> (\<exists>candidates. snd (identify_and_suggest E observation order' h) =
             h @ [Similarity_search observation 3 md,
                  Invoke (prompt_head @ candidates @ prompt_mid @ observation @ prompt_tail)])"
  by (auto simp: identify_and_suggest_unfold find_similar_entries_def Let_def split: sum.splits)

section \<open>Properties of the input loop\<close>







section \<open>Properties of ingestion\<close>

lemma replace_space:
  "replace s '' '' ''_'' = map (\<lambda>c. if c = CHR '' '' then CHR ''_'' else c) s"
  by (induction s) simp_all

lemma lower_char_space: "lower_char c = CHR '' '' \<longleftrightarrow> c = CHR '' ''"
proof -
  have "char_of (of_char c + 32 :: nat) \<noteq> CHR '' ''"
    if "65 \<le> (of_char c :: nat)" "(of_char c :: nat) \<le> 222"
  proof
    assume "char_of (of_char c + 32 :: nat) = CHR '' ''"
    then have "(of_char (char_of (of_char c + 32 :: nat)) :: nat) = of_char CHR '' ''" by simp
    then have "(of_char c + 32 :: nat) mod 256 = 32" by simp
    with that show False by (simp add: mod_if split: if_splits)
  qed
  then show ?thesis
    by (auto simp: lower_char_def Let_def)
qed

lemma ids_eq:
  "ids sample_dataset =
     map (\<lambda>entry. map (\<lambda>c. if c = CHR '' '' then CHR ''_'' else lower_char c) (name entry)) sample_dataset"
  by (simp add: ids_def replace_space lower_def lower_char_space)

lemma upsert_Cons:
  "upsert embedder c (r # rs) =
     (fst (upsert embedder (store_one embedder r c) rs),
      (case r of (i, t, m) \<Rightarrow> (i, case embedder t of Inl e \<Rightarrow> Some e | Inr v \<Rightarrow> None))
        # snd (upsert embedder (store_one embedder r c) rs))"
proof -
  obtain i t m where r: "r = (i, t, m)" by (cases r)
  show ?thesis
    by (cases "embedder t") (simp_all add: r store_one_def split: prod.splits)
qed

lemma fst_upsert: "fst (upsert embedder c rs) = fold (store_one embedder) rs c"
  by (induction rs arbitrary: c) (simp_all add: upsert_Cons)

lemma snd_upsert:
  "snd (upsert embedder c rs) =
     map (\<lambda>(i, t, m). (i, case embedder t of Inl e \<Rightarrow> Some e | Inr v \<Rightarrow> None)) rs"
  by (induction rs arbitrary: c) (simp_all add: upsert_Cons)

lemma store_one_add: "store_one embedder r c = c ++ store_one embedder r Map.empty"
  by (auto simp: store_one_def split: prod.splits sum.splits)

lemma fold_store_add:
  "fold (store_one embedder) rs c = c ++ fold (store_one embedder) rs Map.empty"
proof (induction rs arbitrary: c)
  case Nil
  show ?case by simp
next
  case (Cons r rs)
  have "fold (store_one embedder) (r # rs) c = store_one embedder r c ++ fold (store_one embedder) rs Map.empty"
    using Cons.IH [of "store_one embedder r c"] by simp
  also have "\<dots> = c ++ (store_one embedder r Map.empty ++ fold (store_one embedder) rs Map.empty)"
    using store_one_add [of embedder r c] by simp
  also have "\<dots> = c ++ fold (store_one embedder) (r # rs) Map.empty"
    using Cons.IH [of "store_one embedder r Map.empty"] by simp
  finally show ?case .
qed

lemma upsert_again:
  "upsert embedder (fst (upsert embedder c rs)) rs = upsert embedder c rs"
proof -
  let ?M = "fold (store_one embedder) rs Map.empty"
  have "fst (upsert embedder (fst (upsert embedder c rs)) rs) = (c ++ ?M) ++ ?M"
    using fold_store_add [of embedder rs c] fold_store_add [of embedder rs "c ++ ?M"]
    by (simp add: fst_upsert)
  also have "\<dots> = c ++ ?M"
    by (rule ext) (simp add: map_add_def split: option.splits)
  also have "\<dots> = fst (upsert embedder c rs)"
    using fold_store_add [of embedder rs c] by (simp add: fst_upsert)
  finally have "fst (upsert embedder (fst (upsert embedder c rs)) rs) = fst (upsert embedder c rs)" .
  moreover have "snd (upsert embedder (fst (upsert embedder c rs)) rs) = snd (upsert embedder c rs)"
    by (simp add: snd_upsert)
  ultimately show ?thesis by (simp add: prod_eq_iff)
qed

section \<open>The helpers on concrete inputs\<close>

text \<open>
  The string helpers, the serialization of one match and the ids, evaluated on small
  inputs, for comparison with what Python prints.
\<close>

lemma ids_example:
  "ids [\<lparr>name = ''Anax Imperator'', order = ''Odonata'', description = ''Long wings''\<rparr>]
     = [''anax_imperator'']"
  by code_simp

lemma describe_example:
  "describe_candidates [dragonfly] =
     Inr ''Candidate species 1: 'Anax imperator' (order: Odonata)\<newline>Description: Long wings\<newline>''"
  by code_simp

lemma str_nat_example: "str_nat 12 = ''12''"
  by code_simp

lemma replace_example: "replace ''a b  c'' '' '' ''_'' = ''a_b__c'' \<and> replace ''aaa'' ''aa'' ''b'' = ''ba''"
  by code_simp

lemma format_example:
  "str_format ''a{{b}}c{x}d'' [''x'' \<mapsto> ''XY''] = Inr ''a{b}cXYd''
   \<and> str_format ''a{y}'' [''x'' \<mapsto> ''XY''] = Inl (KeyError ''y'')
   \<and> str_format ''a}'' [''x'' \<mapsto> ''XY''] = Inl ValueError"
  by code_simp

section \<open>The claims\<close>

subsection \<open>C1: the answer operation as a composition\<close>

text \<open>
  C1, as the spec states it, fails on the block format. For one retrieved match the code
  sends the generation client a prompt whose candidate block ends with a newline, which
  the block of the spec does not have: below, the trace of \<open>identify_and_suggest\<close> on a
  store holding one document, and its difference from the composition worded in the spec.
\<close>

theorem answer_block_format_counterexample:
  "snd (identify_and_suggest (fixed_env (Inr [dragonfly]) Inr) ''wings'' None []) =
     [Similarity_search ''wings'' 3 Map.empty,
      Invoke (prompt_head @ spec_block 1 ''Anax imperator'' ''Odonata'' ''Long wings'' @ ''\<newline>''
              @ prompt_mid @ ''wings'' @ prompt_tail)]
   \<and> snd (spec_answer (fixed_env (Inr [dragonfly]) Inr) ''wings'' None []) =
     [Similarity_search ''wings'' 3 Map.empty,
      Invoke (prompt_head @ spec_block 1 ''Anax imperator'' ''Odonata'' ''Long wings''
              @ prompt_mid @ ''wings'' @ prompt_tail)]
   \<and> identify_and_suggest (fixed_env (Inr [dragonfly]) Inr) ''wings'' None []
     \<noteq> spec_answer (fixed_env (Inr [dragonfly]) Inr) ''wings'' None []"
proof -
  let ?B = "spec_block 1 ''Anax imperator'' ''Odonata'' ''Long wings''"
  let ?S = "Similarity_search ''wings'' 3 Map.empty"
  have m: "metadata dragonfly ''name'' = Some ''Anax imperator''"
    "metadata dragonfly ''order'' = Some ''Odonata''"
    "page_content dragonfly = ''Long wings''"
    by (simp_all add: dragonfly_def)
  have c: "describe_candidates [dragonfly] = Inr (?B @ ''\<newline>'')"
    using candidate_block_present [OF m(1,2), of 0]
    by (simp add: describe_candidates_def m(3))
  have code: "snd (identify_and_suggest (fixed_env (Inr [dragonfly]) Inr) ''wings'' None [])
      = [?S, Invoke (prompt_head @ ?B @ ''\<newline>'' @ prompt_mid @ ''wings'' @ prompt_tail)]"
    by (simp add: identify_and_suggest_unfold c find_similar_entries_def fixed_env_def Let_def)
  have spec: "snd (spec_answer (fixed_env (Inr [dragonfly]) Inr) ''wings'' None [])
      = [?S, Invoke (prompt_head @ ?B @ prompt_mid @ ''wings'' @ prompt_tail)]"
    by (simp add: spec_answer_def spec_serialize_def getitem_def m find_similar_entries_def
        fixed_env_def Let_def)
  have "''\<newline>'' @ prompt_mid @ ''wings'' @ prompt_tail \<noteq> prompt_mid @ ''wings'' @ prompt_tail"
    by (simp add: prompt_mid_def)
  then have "prompt_head @ ?B @ ''\<newline>'' @ prompt_mid @ ''wings'' @ prompt_tail
      \<noteq> prompt_head @ ?B @ prompt_mid @ ''wings'' @ prompt_tail"
    by simp
  with code spec have "identify_and_suggest (fixed_env (Inr [dragonfly]) Inr) ''wings'' None []
      \<noteq> spec_answer (fixed_env (Inr [dragonfly]) Inr) ''wings'' None []"
    by auto
  with code spec show ?thesis by blast
qed

text \<open>
  C1, amended. For every observation and optional order, \<open>identify_and_suggest\<close> is
  the composition: retrieve with \<open>k = 3\<close>; serialize the matches, numbered from 1, each
  into \<^verbatim>\<open>Candidate species i: '<name>' (order: <order>)\nDescription: <text>\n\<close> (the block
  of the spec followed by a newline), joined by a newline; put the candidates and the
  observation into the two fields of the template, the rest of the template unchanged;
  call the generation client on that prompt; return its result stripped of surrounding
  whitespace. An exception of retrieval, of a metadata lookup or of the generation call
  is the outcome.
\<close>

theorem identify_and_suggest_composition:
  "identify_and_suggest E observation order' h =
     (case find_similar_entries E observation (Some 3) order' h of
        (Inl e, h1) \<Rightarrow> (Inl e, h1)
      | (Inr matches, h1) \<Rightarrow>
          (case comprehension candidate_block (enumerate 0 matches) of
             Inl e \<Rightarrow> (Inl e, h1)
           | Inr blocks \<Rightarrow>
               (let prompt = prompt_head @ join ''\<newline>'' blocks @ prompt_mid @ observation @ prompt_tail
                in (map_sum id strip (invoke E h1 prompt), h1 @ [Invoke prompt]))))
   \<and> candidate_block (i, \<lparr>page_content = txt, metadata = extra(''name'' \<mapsto> nm, ''order'' \<mapsto> od)\<rparr>)
       = Inr (spec_block (i + 1) nm od txt @ ''\<newline>'')"
proof
  show "identify_and_suggest E observation order' h =
     (case find_similar_entries E observation (Some 3) order' h of
        (Inl e, h1) \<Rightarrow> (Inl e, h1)
      | (Inr matches, h1) \<Rightarrow>
          (case comprehension candidate_block (enumerate 0 matches) of
             Inl e \<Rightarrow> (Inl e, h1)
           | Inr blocks \<Rightarrow>
               (let prompt = prompt_head @ join ''\<newline>'' blocks @ prompt_mid @ observation @ prompt_tail
                in (map_sum id strip (invoke E h1 prompt), h1 @ [Invoke prompt]))))"
    by (simp add: identify_and_suggest_unfold describe_candidates_def Let_def
        split: prod.splits sum.splits)
  show "candidate_block (i, \<lparr>page_content = txt, metadata = extra(''name'' \<mapsto> nm, ''order'' \<mapsto> od)\<rparr>)
       = Inr (spec_block (i + 1) nm od txt @ ''\<newline>'')"
    by (simp add: candidate_block_present)
qed

subsection \<open>C2 and C9: the metadata filter of retrieval\<close>

text \<open>
  C2, as the spec states it, fails when the order argument is given as the empty string:
  the code then searches with the empty filter, not with the filter on the order.
\<close>

theorem retrieve_given_empty_order_counterexample:
  "snd (find_similar_entries (fixed_env (Inr []) Inr) ''wings'' (Some 2) (Some '''') [])
     = [Similarity_search ''wings'' 2 Map.empty]
   \<and> snd (find_similar_entries (fixed_env (Inr []) Inr) ''wings'' (Some 2) (Some '''') [])
     \<noteq> [Similarity_search ''wings'' 2 [''order'' \<mapsto> '''']]"
proof -
  have "(Map.empty :: string \<rightharpoonup> string) \<noteq> [''order'' \<mapsto> []]"
    by (metis map_upd_nonempty)
  then show ?thesis
    by (simp add: find_similar_entries_def Let_def)
qed

text \<open>
  C2, amended. For every observation, \<open>k\<close> and order, \<open>find_similar_entries\<close> calls the
  store's similarity search once, with the observation, with \<open>k\<close>, and with the filter
  \<^verbatim>\<open>{"order": order}\<close> when the order is a non-empty string and the empty filter when it is
  absent or empty, and returns what the search returned (matches or exception) unchanged.
\<close>

theorem retrieve_filter_by_truthiness:
  "find_similar_entries E observation (Some k) order' h =
     (let md = (case order' of
                  None \<Rightarrow> Map.empty
                | Some s \<Rightarrow> if s = [] then Map.empty else [''order'' \<mapsto> s])
      in (similarity_search E h observation k md, h @ [Similarity_search observation k md]))"
  by (cases order') (simp_all add: find_similar_entries_def Let_def)



subsection \<open>C3: no retrieved match\<close>

text \<open>
  C3, as the spec states it, fails on the non-empty answer: with no match retrieved and a
  generation client that returns only a newline, the answer is the empty string.
\<close>

theorem answer_no_matches_empty_counterexample:
  "identify_and_suggest (fixed_env (Inr []) (reply_with (Inr ''\<newline>''))) ''wings'' None [] =
     (Inr '''',
      [Similarity_search ''wings'' 3 Map.empty,
       Invoke (prompt_head @ prompt_mid @ ''wings'' @ prompt_tail)])"
  by (simp add: identify_and_suggest_unfold find_similar_entries_def describe_candidates_def
      fixed_env_def reply_with_def Let_def strip_def isspace_def)

text \<open>
  C3, amended. When retrieval returns no match, \<open>describe_candidates\<close> gives the empty
  string, the template renders with an empty candidates field, the generation client is
  called once on that prompt, and the answer is its result stripped of surrounding
  whitespace (its exception, if it raises one): the pipeline adds no failure of its own.
  The answer is non-empty exactly when the generated text has a character that is not
  whitespace.
\<close>

theorem answer_no_matches:
  "describe_candidates [] = Inr ''''
   \<and> format_prompt observation '''' = Inr (prompt_head @ prompt_mid @ observation @ prompt_tail)
   \<and> (find_similar_entries E observation (Some 3) order' h = (Inr [], h1) \<longrightarrow>
        identify_and_suggest E observation order' h =
          ((case invoke E h1 (prompt_head @ prompt_mid @ observation @ prompt_tail) of
              Inl e \<Rightarrow> Inl e
            | Inr generated \<Rightarrow> Inr (strip generated)),
           h1 @ [Invoke (prompt_head @ prompt_mid @ observation @ prompt_tail)]))
   \<and> (strip generated \<noteq> [] \<longleftrightarrow> (\<exists>c \<in> set generated. \<not> isspace c))"
proof (intro conjI impI)
  show "describe_candidates [] = Inr ''''"
    by (simp add: describe_candidates_def)
  show "format_prompt observation '''' = Inr (prompt_head @ prompt_mid @ observation @ prompt_tail)"
    by (simp add: format_prompt_eq)
  show "strip generated \<noteq> [] \<longleftrightarrow> (\<exists>c \<in> set generated. \<not> isspace c)"
    by (rule strip_nonempty_iff)
next
  assume "find_similar_entries E observation (Some 3) order' h = (Inr [], h1)"
  then show "identify_and_suggest E observation order' h =
          ((case invoke E h1 (prompt_head @ prompt_mid @ observation @ prompt_tail) of
              Inl e \<Rightarrow> Inl e
            | Inr generated \<Rightarrow> Inr (strip generated)),
           h1 @ [Invoke (prompt_head @ prompt_mid @ observation @ prompt_tail)])"
    by (simp add: identify_and_suggest_unfold describe_candidates_def Let_def split: sum.splits)
qed

theorem answer_no_matches_witness:
  "find_similar_entries (fixed_env (Inr []) (reply_with (Inr '' A mayfly. ''))) ''wings'' (Some 3) None []
     = (Inr [], [Similarity_search ''wings'' 3 Map.empty])
   \<and> identify_and_suggest (fixed_env (Inr []) (reply_with (Inr '' A mayfly. ''))) ''wings'' None []
     = (Inr ''A mayfly.'',
        [Similarity_search ''wings'' 3 Map.empty,
         Invoke (prompt_head @ prompt_mid @ ''wings'' @ prompt_tail)])"
proof -
  let ?E = "fixed_env (Inr []) (reply_with (Inr '' A mayfly. ''))"
  have f: "find_similar_entries ?E ''wings'' (Some 3) None []
     = (Inr [], [Similarity_search ''wings'' 3 Map.empty])"
    by (simp add: find_similar_entries_def fixed_env_def Let_def)
  have s: "strip '' A mayfly. '' = ''A mayfly.''"
    by (simp add: strip_def isspace_def)
  from answer_no_matches [of "''wings''" ?E None "[]" "[Similarity_search ''wings'' 3 Map.empty]" "[]"] f
  have "identify_and_suggest ?E ''wings'' None [] =
      ((case invoke ?E [Similarity_search ''wings'' 3 Map.empty]
               (prompt_head @ prompt_mid @ ''wings'' @ prompt_tail) of
          Inl e \<Rightarrow> Inl e
        | Inr generated \<Rightarrow> Inr (strip generated)),
       [Similarity_search ''wings'' 3 Map.empty] @
       [Invoke (prompt_head @ prompt_mid @ ''wings'' @ prompt_tail)])"
    by blast
  then show ?thesis using f s by (simp add: fixed_env_def reply_with_def)
qed

subsection \<open>C4: a non-positive k\<close>

text \<open>
  C4, as the spec states it, fails: \<open>find_similar_entries\<close> does not check \<open>k\<close>. With
  \<open>k = 0\<close> and a store that accepts it, the search is made and its result returned.
\<close>

theorem retrieve_zero_k_counterexample:
  "find_similar_entries (fixed_env (Inr []) Inr) ''wings'' (Some 0) None [] =
     (Inr [], [Similarity_search ''wings'' 0 Map.empty])"
  by (simp add: find_similar_entries_def fixed_env_def Let_def)

text \<open>
  C4, amended. For every \<open>k \<le> 0\<close>, \<open>find_similar_entries\<close> still makes the similarity
  search, with \<open>k\<close> passed on unchanged, and returns what the store returns; it fails with
  \<^verbatim>\<open>InvalidArgument\<close> exactly when the store's search does. The answer operation always
  retrieves with \<open>k = 3\<close>, so a non-positive \<open>k\<close> never arises through it.
\<close>

theorem retrieve_forwards_nonpositive_k:
  "(k \<le> 0 \<longrightarrow>
      (\<exists>md. snd (find_similar_entries E observation (Some k) order' h) =
               h @ [Similarity_search observation k md]
           \<and> fst (find_similar_entries E observation (Some k) order' h) =
               similarity_search E h observation k md
           \<and> (fst (find_similar_entries E observation (Some k) order' h) = Inl InvalidArgument
                \<longleftrightarrow> similarity_search E h observation k md = Inl InvalidArgument)))
   \<and> (\<exists>md rest. snd (identify_and_suggest E observation order' h) =
                   h @ Similarity_search observation 3 md # rest)"
proof (intro conjI impI)
  show "\<exists>md. snd (find_similar_entries E observation (Some k) order' h) =
               h @ [Similarity_search observation k md]
           \<and> fst (find_similar_entries E observation (Some k) order' h) =
               similarity_search E h observation k md
           \<and> (fst (find_similar_entries E observation (Some k) order' h) = Inl InvalidArgument
                \<longleftrightarrow> similarity_search E h observation k md = Inl InvalidArgument)"
    using snd_find_similar_entries [of E observation k order' h] by auto
  show "\<exists>md rest. snd (identify_and_suggest E observation order' h) =
                   h @ Similarity_search observation 3 md # rest"
    using trace_identify_and_suggest [of E observation order' h] by auto
qed

theorem retrieve_forwards_nonpositive_k_witness:
  "(0::int) \<le> 0
   \<and> find_similar_entries (fixed_env (Inl InvalidArgument) Inr) ''wings'' (Some 0) (Some ''Odonata'') []
       = (Inl InvalidArgument, [Similarity_search ''wings'' 0 [''order'' \<mapsto> ''Odonata'']])
   \<and> find_similar_entries (fixed_env (Inr [dragonfly]) Inr) ''wings'' (Some (- 1)) None []
       = (Inr [dragonfly], [Similarity_search ''wings'' (- 1) Map.empty])"
  using retrieve_forwards_nonpositive_k [of 0 "fixed_env (Inl InvalidArgument) Inr" "''wings''" "Some ''Odonata''" "[]"]
  by (simp add: find_similar_entries_def fixed_env_def Let_def)

subsection \<open>C5: errors of the two services\<close>

text \<open>
  C5. Whatever exception the store's similarity search raises, \<open>find_similar_entries\<close>
  ends with that same exception, and so does \<open>identify_and_suggest\<close>, after that one call
  and without a call of the generation client. Whatever exception the generation call
  raises, \<open>identify_and_suggest\<close> ends with that same exception, after one search and one
  generation call. In both cases the outcome is the exception and no answer. The same
  holds when the failure is read off the result of \<open>find_similar_entries\<close>.
\<close>

theorem answer_errors_surface:
  "(let md = (case order' of
                None \<Rightarrow> Map.empty
              | Some s \<Rightarrow> if s = [] then Map.empty else [''order'' \<mapsto> s]);
        t = h @ [Similarity_search observation 3 md];
        prompt = prompt_head @ candidates @ prompt_mid @ observation @ prompt_tail
    in (similarity_search E h observation k md = Inl e \<longrightarrow>
          find_similar_entries E observation (Some k) order' h =
            (Inl e, h @ [Similarity_search observation k md]))
     \<and> (similarity_search E h observation 3 md = Inl e \<longrightarrow>
          identify_and_suggest E observation order' h = (Inl e, t))
     \<and> (similarity_search E h observation 3 md = Inr matches
          \<and> describe_candidates matches = Inr candidates
          \<and> invoke E t prompt = Inl e \<longrightarrow>
          identify_and_suggest E observation order' h = (Inl e, t @ [Invoke prompt])))
   \<and> (find_similar_entries E observation (Some 3) order' h = (Inl e, h1) \<longrightarrow>
      identify_and_suggest E observation order' h = (Inl e, h1)
      \<and> (\<exists>md. h1 = h @ [Similarity_search observation 3 md]))
   \<and> (find_similar_entries E observation (Some 3) order' h = (Inr matches, h1)
        \<and> describe_candidates matches = Inr candidates
        \<and> invoke E h1 (prompt_head @ candidates @ prompt_mid @ observation @ prompt_tail) = Inl e \<longrightarrow>
      identify_and_suggest E observation order' h =
        (Inl e, h1 @ [Invoke (prompt_head @ candidates @ prompt_mid @ observation @ prompt_tail)])
      \<and> (\<exists>md. h1 = h @ [Similarity_search observation 3 md]))"
proof -
  let ?md = "case order' of
                None \<Rightarrow> Map.empty
              | Some s \<Rightarrow> if s = [] then Map.empty else [''order'' \<mapsto> s]"
  let ?P = "prompt_head @ candidates @ prompt_mid @ observation @ prompt_tail"
  have f: "find_similar_entries E observation (Some n) order' h =
      (similarity_search E h observation n ?md, h @ [Similarity_search observation n ?md])" for n
    by (cases order') (simp_all add: find_similar_entries_def Let_def)
  have a: "similarity_search E h observation k ?md = Inl e \<longrightarrow>
      find_similar_entries E observation (Some k) order' h =
        (Inl e, h @ [Similarity_search observation k ?md])"
    by (simp add: f)
  have b: "similarity_search E h observation 3 ?md = Inl e \<longrightarrow>
      identify_and_suggest E observation order' h = (Inl e, h @ [Similarity_search observation 3 ?md])"
    by (simp add: identify_and_suggest_unfold f)
  have c: "similarity_search E h observation 3 ?md = Inr matches
          \<and> describe_candidates matches = Inr candidates
          \<and> invoke E (h @ [Similarity_search observation 3 ?md]) ?P = Inl e \<longrightarrow>
      identify_and_suggest E observation order' h =
        (Inl e, (h @ [Similarity_search observation 3 ?md]) @ [Invoke ?P])"
    by (simp add: identify_and_suggest_unfold f Let_def)
  have d: "find_similar_entries E observation (Some 3) order' h = (Inl e, h1) \<longrightarrow>
      identify_and_suggest E observation order' h = (Inl e, h1)
      \<and> (\<exists>md. h1 = h @ [Similarity_search observation 3 md])"
    using snd_find_similar_entries [of E observation 3 order' h]
    by (auto simp: identify_and_suggest_unfold)
  have g: "find_similar_entries E observation (Some 3) order' h = (Inr matches, h1)
        \<and> describe_candidates matches = Inr candidates
        \<and> invoke E h1 ?P = Inl e \<longrightarrow>
      identify_and_suggest E observation order' h = (Inl e, h1 @ [Invoke ?P])
      \<and> (\<exists>md. h1 = h @ [Similarity_search observation 3 md])"
    using snd_find_similar_entries [of E observation 3 order' h]
    by (auto simp: identify_and_suggest_unfold Let_def)
  from a b c d g show ?thesis unfolding Let_def by blast
qed

theorem answer_errors_surface_witness:
  "similarity_search (fixed_env (Inl QuotaError) Inr) [] ''wings'' 3 [''order'' \<mapsto> ''Odonata'']
     = Inl QuotaError
   \<and> find_similar_entries (fixed_env (Inl QuotaError) Inr) ''wings'' (Some 3) (Some ''Odonata'') []
     = (Inl QuotaError, [Similarity_search ''wings'' 3 [''order'' \<mapsto> ''Odonata'']])
   \<and> identify_and_suggest (fixed_env (Inl QuotaError) Inr) ''wings'' (Some ''Odonata'') []
     = (Inl QuotaError, [Similarity_search ''wings'' 3 [''order'' \<mapsto> ''Odonata'']])
   \<and> similarity_search (fixed_env (Inr []) (reply_with (Inl ServiceError))) [] ''wings'' 3 Map.empty
     = Inr []
   \<and> describe_candidates [] = Inr ''''
   \<and> invoke (fixed_env (Inr []) (reply_with (Inl ServiceError))) [Similarity_search ''wings'' 3 Map.empty]
        (prompt_head @ '''' @ prompt_mid @ ''wings'' @ prompt_tail) = Inl ServiceError
   \<and> identify_and_suggest (fixed_env (Inr []) (reply_with (Inl ServiceError))) ''wings'' None []
     = (Inl ServiceError,
        [Similarity_search ''wings'' 3 Map.empty,
         Invoke (prompt_head @ '''' @ prompt_mid @ ''wings'' @ prompt_tail)])"
proof -
  let ?E = "fixed_env (Inl QuotaError) Inr"
  let ?G = "fixed_env (Inr []) (reply_with (Inl ServiceError))"
  let ?m = "[''order'' \<mapsto> ''Odonata'']"
  let ?P = "prompt_head @ '''' @ prompt_mid @ ''wings'' @ prompt_tail"
  have s: "similarity_search ?E [] ''wings'' 3 ?m = Inl QuotaError"
    by (simp add: fixed_env_def)
  note t1 = answer_errors_surface [of "Some ''Odonata''" "[]" "''wings''" "''''" ?E 3 QuotaError]
  from t1 s have a: "find_similar_entries ?E ''wings'' (Some 3) (Some ''Odonata'') []
      = (Inl QuotaError, [Similarity_search ''wings'' 3 ?m])"
    by (simp add: Let_def)
  from t1 s have b: "identify_and_suggest ?E ''wings'' (Some ''Odonata'') []
      = (Inl QuotaError, [Similarity_search ''wings'' 3 ?m])"
    by (simp add: Let_def)
  have g: "similarity_search ?G [] ''wings'' 3 Map.empty = Inr []"
    by (simp add: fixed_env_def)
  have d: "describe_candidates [] = Inr ''''"
    by (simp add: describe_candidates_def)
  have i: "invoke ?G [Similarity_search ''wings'' 3 Map.empty] ?P = Inl ServiceError"
    by (simp add: fixed_env_def reply_with_def)
  note t2 = answer_errors_surface [of None "[]" "''wings''" "''''" ?G 3 ServiceError "[]"]
  from t2 g d i have c: "identify_and_suggest ?G ''wings'' None []
      = (Inl ServiceError, [Similarity_search ''wings'' 3 Map.empty, Invoke ?P])"
    by (simp add: Let_def)
  from s a b g d i c show ?thesis by blast
qed

subsection \<open>C6: deterministic ids and repeated ingestion\<close>

text \<open>
  C6. The id of an entry is its name with every capital lowered and every space replaced
  by an underscore. Ingesting a dataset succeeds and reports one outcome per id; ingesting
  the same dataset again into the resulting collection reports the same outcomes and
  leaves the collection, hence its size, unchanged.
\<close>

theorem reingestion_idempotent:
  "ids sample_dataset =
     map (\<lambda>entry. map (\<lambda>c. if c = CHR '' '' then CHR ''_'' else lower_char c) (name entry)) sample_dataset
   \<and> (\<exists>c1 c2 out.
        ingest embedder c sample_dataset = Inr (c1, out)
        \<and> map fst out = ids sample_dataset
        \<and> ingest embedder c1 sample_dataset = Inr (c2, out)
        \<and> c2 = c1
        \<and> card (dom c2) = card (dom c1))"
proof
  show "ids sample_dataset =
     map (\<lambda>entry. map (\<lambda>c. if c = CHR '' '' then CHR ''_'' else lower_char c) (name entry)) sample_dataset"
    by (rule ids_eq)
  let ?rs = "zip (ids sample_dataset) (zip (texts sample_dataset) (metadatas sample_dataset))"
  have len: "length (texts sample_dataset) = length (ids sample_dataset)"
    "length (metadatas sample_dataset) = length (ids sample_dataset)"
    by (simp_all add: texts_def metadatas_def ids_def)
  have i: "\<And>c. ingest embedder c sample_dataset = Inr (upsert embedder c ?rs)"
    using len by (simp add: ingest_def add_texts_def)
  obtain c1 out where u: "upsert embedder c ?rs = (c1, out)" by (cases "upsert embedder c ?rs")
  have "upsert embedder c1 ?rs = (c1, out)"
    using upsert_again [of embedder c ?rs] u by simp
  moreover have "map fst out = ids sample_dataset"
  proof -
    have "map fst (snd (upsert embedder c ?rs)) = map fst ?rs"
      by (simp add: snd_upsert comp_def case_prod_beta)
    also have "\<dots> = ids sample_dataset" using len by simp
    finally show ?thesis using u by simp
  qed
  ultimately show "\<exists>c1 c2 out.
        ingest embedder c sample_dataset = Inr (c1, out)
        \<and> map fst out = ids sample_dataset
        \<and> ingest embedder c1 sample_dataset = Inr (c2, out)
        \<and> c2 = c1
        \<and> card (dom c2) = card (dom c1)"
    using i u by auto
qed

subsection \<open>C7: configuration values\<close>

text \<open>
  C7, as the spec states it, fails: the values are written into the notebook. With \<open>k\<close>
  omitted, \<open>find_similar_entries\<close> searches with \<open>k = 3\<close>, and so does
  \<open>identify_and_suggest\<close>, which has no parameter for it; and the request that the
  notebook's generation client makes for a prompt carries the sampling parameters of
  cell 29.
\<close>

theorem default_k_baked_in_counterexample:
  "find_similar_entries (fixed_env (Inr []) Inr) ''wings'' None None [] =
     (Inr [], [Similarity_search ''wings'' 3 Map.empty])
   \<and> snd (identify_and_suggest (fixed_env (Inr []) Inr) ''wings'' None []) =
     [Similarity_search ''wings'' 3 Map.empty,
      Invoke (prompt_head @ prompt_mid @ ''wings'' @ prompt_tail)]
   \<and> transform_input ''wings'' model_kwargs =
     JObject [(''inputs'', JString ''wings''),
              (''parameters'',
               JObject [(''max_new_tokens'', JInt 3072), (''top_p'', JDecimal 4 1),
                        (''temperature'', JDecimal 1 3)])]"
  by (simp add: identify_and_suggest_unfold find_similar_entries_def describe_candidates_def
      fixed_env_def Let_def transform_input_def model_kwargs_def)

text \<open>
  C7, amended. The top-k, the prompt template and the sampling parameters are fixed in
  the notebook. \<open>find_similar_entries\<close> takes \<open>k = 3\<close> when the caller omits it, and
  \<open>identify_and_suggest\<close> always retrieves with \<open>k = 3\<close>. The prompt is always the text of
  \<^verbatim>\<open>PROMPT_TEMPLATE\<close> with its two fields filled. With the generation client of cell 29,
  every generation request of \<open>identify_and_suggest\<close> carries the parameters
  \<^verbatim>\<open>max_new_tokens = 3072\<close>, \<^verbatim>\<open>top_p = 0.4\<close> and \<^verbatim>\<open>temperature = 0.001\<close>, whatever the
  observation, the order and the services; the pipeline passes the client the prompt and
  nothing else.
\<close>

theorem pipeline_fixed_configuration:
  "find_similar_entries E observation None order' h = find_similar_entries E observation (Some 3) order' h
   \<and> (\<exists>md. snd (identify_and_suggest E observation order' h) = h @ [Similarity_search observation 3 md]
          \<or> (\<exists>candidates. snd (identify_and_suggest E observation order' h) =
                h @ [Similarity_search observation 3 md,
                     Invoke (prompt_head @ candidates @ prompt_mid @ observation @ prompt_tail)]))
   \<and> format_prompt observation candidates =
        Inr (prompt_head @ candidates @ prompt_mid @ observation @ prompt_tail)
   \<and> identify_and_suggest (notebook_env astra_v_store endpoint) observation order' h =
       (case find_similar_entries (notebook_env astra_v_store endpoint) observation (Some 3) order' h of
          (Inl e, h1) \<Rightarrow> (Inl e, h1)
        | (Inr matches, h1) \<Rightarrow>
            (case describe_candidates matches of
               Inl e \<Rightarrow> (Inl e, h1)
             | Inr candidates_text \<Rightarrow>
                 (let prompt = prompt_head @ candidates_text @ prompt_mid @ observation @ prompt_tail;
                      request =
                        JObject [(''inputs'', JString prompt),
                                 (''parameters'',
                                  JObject [(''max_new_tokens'', JInt 3072), (''top_p'', JDecimal 4 1),
                                           (''temperature'', JDecimal 1 3)])]
                  in (map_sum id strip (endpoint h1 request), h1 @ [Invoke prompt]))))"
proof (intro conjI)
  show "find_similar_entries E observation None order' h = find_similar_entries E observation (Some 3) order' h"
    by (simp add: find_similar_entries_def)
  show "\<exists>md. snd (identify_and_suggest E observation order' h) = h @ [Similarity_search observation 3 md]
          \<or> (\<exists>candidates. snd (identify_and_suggest E observation order' h) =
                h @ [Similarity_search observation 3 md,
                     Invoke (prompt_head @ candidates @ prompt_mid @ observation @ prompt_tail)])"
    by (rule trace_identify_and_suggest)
  show "format_prompt observation candidates =
        Inr (prompt_head @ candidates @ prompt_mid @ observation @ prompt_tail)"
    by (rule format_prompt_eq)
  have "invoke (notebook_env astra_v_store endpoint) h1 prompt =
      endpoint h1 (JObject [(''inputs'', JString prompt),
                            (''parameters'',
                             JObject [(''max_new_tokens'', JInt 3072), (''top_p'', JDecimal 4 1),
                                      (''temperature'', JDecimal 1 3)])])" for h1 prompt
    by (simp add: notebook_env_def llm_def transform_input_def model_kwargs_def)
  then show "identify_and_suggest (notebook_env astra_v_store endpoint) observation order' h =
       (case find_similar_entries (notebook_env astra_v_store endpoint) observation (Some 3) order' h of
          (Inl e, h1) \<Rightarrow> (Inl e, h1)
        | (Inr matches, h1) \<Rightarrow>
            (case describe_candidates matches of
               Inl e \<Rightarrow> (Inl e, h1)
             | Inr candidates_text \<Rightarrow>
                 (let prompt = prompt_head @ candidates_text @ prompt_mid @ observation @ prompt_tail;
                      request =
                        JObject [(''inputs'', JString prompt),
                                 (''parameters'',
                                  JObject [(''max_new_tokens'', JInt 3072), (''top_p'', JDecimal 4 1),
                                           (''temperature'', JDecimal 1 3)])]
                  in (map_sum id strip (endpoint h1 request), h1 @ [Invoke prompt]))))"
    by (simp add: identify_and_suggest_unfold Let_def split: prod.splits sum.splits)
qed

subsection \<open>C8: the input loop\<close>




subsection \<open>C10: the metadata keys of a match\<close>

text \<open>
  C10. When every match has the keys \<^verbatim>\<open>name\<close> and \<^verbatim>\<open>order\<close> in its metadata,
  \<open>describe_candidates\<close> returns a string. When retrieval returns a match that lacks one
  of them, \<open>identify_and_suggest\<close> ends with the \<^verbatim>\<open>KeyError\<close> of that key, and the trace
  holds the search only: the generation client has not been called.
\<close>

theorem candidates_need_name_and_order:
  "((\<forall>d \<in> set matches. metadata d ''name'' \<noteq> None \<and> metadata d ''order'' \<noteq> None) \<longrightarrow>
      (\<exists>s. describe_candidates matches = Inr s))
   \<and> (find_similar_entries E observation (Some 3) order' h = (Inr matches, h1)
        \<and> (\<exists>d \<in> set matches. metadata d ''name'' = None \<or> metadata d ''order'' = None) \<longrightarrow>
      (identify_and_suggest E observation order' h = (Inl (KeyError ''name''), h1)
        \<or> identify_and_suggest E observation order' h = (Inl (KeyError ''order''), h1))
      \<and> (\<exists>md. h1 = h @ [Similarity_search observation 3 md]))"
proof (intro conjI impI)
  assume "\<forall>d \<in> set matches. metadata d ''name'' \<noteq> None \<and> metadata d ''order'' \<noteq> None"
  then show "\<exists>s. describe_candidates matches = Inr s"
    by (rule describe_candidates_present)
next
  assume a: "find_similar_entries E observation (Some 3) order' h = (Inr matches, h1)
        \<and> (\<exists>d \<in> set matches. metadata d ''name'' = None \<or> metadata d ''order'' = None)"
  then have "describe_candidates matches = Inl (KeyError ''name'')
       \<or> describe_candidates matches = Inl (KeyError ''order'')"
    using describe_candidates_missing [of matches] by blast
  with a show "identify_and_suggest E observation order' h = (Inl (KeyError ''name''), h1)
        \<or> identify_and_suggest E observation order' h = (Inl (KeyError ''order''), h1)"
    by (auto simp: identify_and_suggest_unfold)
  from a show "\<exists>md. h1 = h @ [Similarity_search observation 3 md]"
    using snd_find_similar_entries [of E observation 3 order' h] by auto
qed

theorem candidates_need_name_and_order_witness:
  "metadata dragonfly ''name'' \<noteq> None \<and> metadata dragonfly ''order'' \<noteq> None
   \<and> (\<exists>s. describe_candidates [dragonfly] = Inr s)
   \<and> find_similar_entries (fixed_env (Inr [dragonfly, unnamed]) Inr) ''wings'' (Some 3) None []
       = (Inr [dragonfly, unnamed], [Similarity_search ''wings'' 3 Map.empty])
   \<and> metadata unnamed ''name'' = None
   \<and> identify_and_suggest (fixed_env (Inr [dragonfly, unnamed]) Inr) ''wings'' None []
       = (Inl (KeyError ''name''), [Similarity_search ''wings'' 3 Map.empty])"
proof -
  let ?E = "fixed_env (Inr [dragonfly, unnamed]) Inr"
  let ?h = "[Similarity_search ''wings'' 3 Map.empty]"
  have k: "metadata dragonfly ''name'' \<noteq> None" "metadata dragonfly ''order'' \<noteq> None"
    by (simp_all add: dragonfly_def)
  then have p: "\<forall>d \<in> set [dragonfly]. metadata d ''name'' \<noteq> None \<and> metadata d ''order'' \<noteq> None"
    by simp
  have f: "find_similar_entries ?E ''wings'' (Some 3) None [] = (Inr [dragonfly, unnamed], ?h)"
    by (simp add: find_similar_entries_def fixed_env_def Let_def)
  have u: "metadata unnamed ''name'' = None"
    by (simp add: unnamed_def)
  then have m: "\<exists>d \<in> set [dragonfly, unnamed]. metadata d ''name'' = None \<or> metadata d ''order'' = None"
    by simp
  have ok: "\<exists>s. describe_candidates [dragonfly] = Inr s"
    using candidates_need_name_and_order [of "[dragonfly]"] p by blast
  have "identify_and_suggest ?E ''wings'' None [] = (Inl (KeyError ''name''), ?h)
      \<or> identify_and_suggest ?E ''wings'' None [] = (Inl (KeyError ''order''), ?h)"
    using candidates_need_name_and_order [of "[dragonfly, unnamed]" ?E "''wings''" None "[]" ?h] f m
    by blast
  moreover have "describe_candidates [dragonfly, unnamed] = Inl (KeyError ''name'')"
    by (simp add: describe_candidates_def candidate_block_def getitem_def dragonfly_def unnamed_def)
  then have "identify_and_suggest ?E ''wings'' None [] \<noteq> (Inl (KeyError ''order''), ?h)"
    by (simp add: identify_and_suggest_unfold f)
  ultimately have "identify_and_suggest ?E ''wings'' None [] = (Inl (KeyError ''name''), ?h)"
    by blast
  with k f u ok show ?thesis by blast
qed

end
